theory Spec2Isabelle
  imports Main "HOL-Library.AList"
begin

section \<open>Data model\<close>

text \<open>
  The development follows \<^verbatim>\<open>modular_sdk/services/tenant_service.py\<close>. A Python
  \<^verbatim>\<open>dict\<close> with string keys is an association list in insertion order: a lookup
  is \<open>map_of\<close>, an item assignment \<^verbatim>\<open>d[k] = v\<close> is \<open>AList.update\<close> (an existing key
  keeps its place, a new key goes to the end), and removing a key is \<open>AList.delete\<close>.
\<close>

type_synonym 'v dict = "(string \<times> 'v) list"

text \<open>
  The attributes of a \<^verbatim>\<open>Tenant\<close> that the service reads: the hash key \<open>name\<close>, the
  hash attributes of the three secondary indexes (\<open>customer_name\<close>, \<open>project\<close>, \<open>dntl\<close>),
  the range attribute \<open>cloud\<close>, the activity flag, the management parent id (absent on a
  tenant without one) and the linkage map \<open>parent_map\<close>.
\<close>

record tenant =
  name :: string
  customer_name :: string
  project :: string
  dntl :: string
  cloud :: string
  is_active :: bool
  management_parent_id :: "string option"
  parent_map :: "string dict"

record parent =
  parent_id :: string
  is_deleted :: bool

section \<open>Filter conditions\<close>

text \<open>
  A condition is what the comparison operators on model attributes build
  (\<^verbatim>\<open>Tenant.is_active == active\<close>, \<^verbatim>\<open>Tenant.name == name\<close>, ...), combined
  with \<^verbatim>\<open>&\<close>. An absent condition is Python's \<^verbatim>\<open>None\<close>.
\<close>

datatype condition =
    Eq_is_active bool
  | Eq_management_parent_id string
  | Eq_name string
  | Eq_cloud string
  | And condition condition

fun holds :: "condition \<Rightarrow> tenant \<Rightarrow> bool" where
  "holds (Eq_is_active b) t = (is_active t = b)"
| "holds (Eq_management_parent_id p) t = (management_parent_id t = Some p)"
| "holds (Eq_name n) t = (name t = n)"
| "holds (Eq_cloud c) t = (cloud t = c)"
| "holds (And a b) t = (holds a t \<and> holds b t)"

text \<open>
  \<^verbatim>\<open>condition &= c\<close>. Neither \<^verbatim>\<open>None\<close> nor a condition defines an in-place
  \<^verbatim>\<open>&=\<close>, so the statement is \<^verbatim>\<open>condition = condition & c\<close>. With a condition on
  the left it is the conjunction; with \<^verbatim>\<open>None\<close> on the left Python falls back to
  the reflected operator of the right operand, which the condition class of the store's
  client library defines for exactly this case (\<^verbatim>\<open>None & c\<close> is \<^verbatim>\<open>c\<close>).
\<close>

fun iand :: "condition option \<Rightarrow> condition \<Rightarrow> condition" where
  "iand None c = c"
| "iand (Some a) c = And a c"

definition satisfies :: "condition option \<Rightarrow> tenant \<Rightarrow> bool" where
  "satisfies c t = (case c of None \<Rightarrow> True | Some c' \<Rightarrow> holds c' t)"

section \<open>The scan and query capability of the store\<close>

text \<open>
  The table is the list of its items in the order in which the store returns them. A
  cursor (\<^verbatim>\<open>last_evaluated_key\<close>) is the hash key of the item returned last.
\<close>

definition resume :: "string option \<Rightarrow> tenant list \<Rightarrow> tenant list" where
  "resume last_evaluated_key items =
     (case last_evaluated_key of
        None \<Rightarrow> items
      | Some k \<Rightarrow> drop 1 (dropWhile (\<lambda>t. name t \<noteq> k) items))"

definition bounded :: "nat option \<Rightarrow> tenant list \<Rightarrow> tenant list" where
  "bounded limit items = (case limit of None \<Rightarrow> items | Some n \<Rightarrow> take n items)"

text \<open>
  Modelled from the spec: \<^verbatim>\<open>Tenant.scan\<close> (the model class and its base class are
  not among the sources). It is the executor of section 4.3: the items after the cursor
  that satisfy the filter, in the store's order, at most \<open>limit\<close> of them; an absent
  filter is an unfiltered scan.
\<close>

definition scan :: "nat option \<Rightarrow> string option \<Rightarrow> condition option \<Rightarrow> tenant list \<Rightarrow> tenant list" where
  "scan limit last_evaluated_key filter_condition table =
     bounded limit (filter (satisfies filter_condition) (resume last_evaluated_key table))"

text \<open>
  Modelled from the spec: \<^verbatim>\<open>query\<close> on a secondary index (the index classes of
  \<^verbatim>\<open>Tenant\<close> are not among the sources). The index is given by its hash attribute;
  the items whose hash attribute equals \<open>hash_key\<close> are narrowed by the range-key
  condition and the filter.
\<close>

definition query ::
  "(tenant \<Rightarrow> string) \<Rightarrow> string \<Rightarrow> condition option \<Rightarrow> condition option \<Rightarrow> nat option
     \<Rightarrow> string option \<Rightarrow> tenant list \<Rightarrow> tenant list" where
  "query hash_attribute hash_key range_key_condition filter_condition limit last_evaluated_key table =
     bounded limit
       (filter (\<lambda>t. hash_attribute t = hash_key \<and> satisfies range_key_condition t
                     \<and> satisfies filter_condition t)
          (resume last_evaluated_key table))"

section \<open>Queries of the tenant service\<close>

text \<open>
  Each function takes the table as its last argument. \<^verbatim>\<open>attributes_to_get\<close> projects
  the attributes of the returned items and selects nothing; it is left out.
\<close>

definition i_scan_tenants :: "bool \<Rightarrow> nat option \<Rightarrow> string option \<Rightarrow> tenant list \<Rightarrow> tenant list" where
  "i_scan_tenants only_active limit last_evaluated_key table =
     (let condition = None;
          condition = (if only_active then Some (iand condition (Eq_is_active True))
                       else condition)
      in scan limit last_evaluated_key condition table)"

definition scan_tenants :: "bool \<Rightarrow> nat option \<Rightarrow> string option \<Rightarrow> tenant list \<Rightarrow> tenant list" where
  "scan_tenants only_active limit last_evaluated_key table =
     i_scan_tenants only_active limit last_evaluated_key table"

definition is_active_condition :: "bool option \<Rightarrow> condition option" where
  \<comment> \<open>\<^verbatim>\<open>active if active is None else (Tenant.is_active == active)\<close>\<close>
  "is_active_condition active = (case active of None \<Rightarrow> None | Some a \<Rightarrow> Some (Eq_is_active a))"

definition i_get_tenant_by_parent_id ::
  "string \<Rightarrow> bool option \<Rightarrow> nat option \<Rightarrow> string option \<Rightarrow> tenant list \<Rightarrow> tenant list" where
  "i_get_tenant_by_parent_id parent_id' active limit last_evaluated_key table =
     (let condition = is_active_condition active;
          condition = (if condition \<noteq> None
                       then Some (iand condition (Eq_management_parent_id parent_id'))
                       else condition)
      in scan limit last_evaluated_key condition table)"

definition get_tenants_by_parent_id :: "string \<Rightarrow> bool \<Rightarrow> tenant list \<Rightarrow> tenant list" where
  "get_tenants_by_parent_id parent_id' only_active table =
     i_get_tenant_by_parent_id parent_id' (Some only_active) None None table"

text \<open>
  Modelled from the spec: \<^verbatim>\<open>default_instance\<close> of \<^verbatim>\<open>modular_sdk.commons\<close> (not
  among the sources), at type \<^verbatim>\<open>str\<close>: the normalization step of section 4.1 that
  turns an absent string into the empty one and keeps a string as it is.
\<close>

definition default_instance :: "string option \<Rightarrow> string" where
  "default_instance v = (case v of None \<Rightarrow> [] | Some s \<Rightarrow> s)"

definition customer_condition :: "bool option \<Rightarrow> string option \<Rightarrow> condition option" where
  \<comment> \<open>the value of \<^verbatim>\<open>condition\<close> that \<^verbatim>\<open>i_get_tenant_by_customer\<close> passes to the query\<close>
  "customer_condition active tenant_name =
     (let condition = is_active_condition active;
          name' = default_instance tenant_name
      in if condition \<noteq> None \<and> name' \<noteq> [] then Some (iand condition (Eq_name name'))
         else if name' \<noteq> [] then Some (Eq_name name')
         else condition)"

definition i_get_tenant_by_customer ::
  "string \<Rightarrow> bool option \<Rightarrow> string option \<Rightarrow> nat option \<Rightarrow> string option \<Rightarrow> tenant list
     \<Rightarrow> tenant list" where
  "i_get_tenant_by_customer customer_id active tenant_name limit last_evaluated_key table =
     query customer_name customer_id None (customer_condition active tenant_name)
       limit last_evaluated_key table"

definition i_get_by_acc ::
  "string \<Rightarrow> bool option \<Rightarrow> nat option \<Rightarrow> string option \<Rightarrow> tenant list \<Rightarrow> tenant list" where
  "i_get_by_acc acc active limit last_evaluated_key table =
     query project acc None (is_active_condition active) limit last_evaluated_key table"

text \<open>
  \<^verbatim>\<open>str.upper\<close>. On ASCII text (every character below 128) the letters
  \<^verbatim>\<open>a\<close> to \<^verbatim>\<open>z\<close> (codes 97 to 122) move down by 32 and every other character
  stays. On any other text it is the Unicode case mapping, which can change more than
  these letters and even the length of the string; that mapping is the parameter
  \<open>unicode_upper\<close>.
\<close>

definition upper_char :: "char \<Rightarrow> char" where
  "upper_char c =
     (if 97 \<le> (of_char c :: nat) \<and> (of_char c :: nat) \<le> 122
      then char_of ((of_char c :: nat) - 32) else c)"

definition is_ascii :: "string \<Rightarrow> bool" where
  "is_ascii s = list_all (\<lambda>c. (of_char c :: nat) < 128) s"

definition upper :: "(string \<Rightarrow> string) \<Rightarrow> string \<Rightarrow> string" where
  "upper unicode_upper s = (if is_ascii s then map upper_char s else unicode_upper s)"

definition cloud_condition :: "(string \<Rightarrow> string) \<Rightarrow> string option \<Rightarrow> condition option" where
  \<comment> \<open>\<^verbatim>\<open>None if cloud is None else (Tenant.cloud == cloud.upper())\<close>\<close>
  "cloud_condition unicode_upper cloud' =
     (case cloud' of None \<Rightarrow> None | Some c \<Rightarrow> Some (Eq_cloud (upper unicode_upper c)))"

definition i_get_by_dntl ::
  "(string \<Rightarrow> string) \<Rightarrow> string \<Rightarrow> string option \<Rightarrow> bool option \<Rightarrow> nat option \<Rightarrow> string option \<Rightarrow> tenant list
     \<Rightarrow> tenant list" where
  "i_get_by_dntl unicode_upper dntl' cloud' active limit last_evaluated_key table =
     (let fc = is_active_condition active;
          rc = cloud_condition unicode_upper cloud'
      in query dntl dntl' rc fc limit last_evaluated_key table)"

section \<open>Errors\<close>

text \<open>
  Every failure of the linkage protocol is a \<^verbatim>\<open>ModularException\<close> with the code
  \<^verbatim>\<open>RESPONSE_BAD_REQUEST_CODE\<close> and a message; the four raise sites differ in the
  message. \<^verbatim>\<open>TypeError\<close> and \<^verbatim>\<open>AttributeError\<close> are what Python raises when the
  projection meets a value of the wrong shape.
\<close>

datatype response_code = RESPONSE_BAD_REQUEST_CODE

datatype error =
    ModularException response_code string
  | TypeError
  | AttributeError

definition quoted :: "string \<Rightarrow> string" where
  "quoted s = [CHR 0x27] @ s @ [CHR 0x27]"

fun join :: "string \<Rightarrow> string list \<Rightarrow> string" where
  "join sep [] = []"
| "join sep [x] = x"
| "join sep (x # y # ys) = x @ sep @ join sep (y # ys)"

definition InvalidLinkageType :: "string list \<Rightarrow> string \<Rightarrow> error" where
  \<comment> \<open>\<^verbatim>\<open>Unsupported type '{type_}'. Available options: {", ".join(ALLOWED...)}\<close>\<close>
  "InvalidLinkageType allowed type' =
     ModularException RESPONSE_BAD_REQUEST_CODE
       (''Unsupported type '' @ quoted type' @ ''. Available options: '' @ join '', '' allowed)"

definition EntityInactive :: "tenant \<Rightarrow> error" where
  \<comment> \<open>\<^verbatim>\<open>Tenant '{tenant.name}' is not active.\<close>\<close>
  "EntityInactive t =
     ModularException RESPONSE_BAD_REQUEST_CODE (''Tenant '' @ quoted (name t) @ '' is not active.'')"

definition TargetDeleted :: "tenant \<Rightarrow> error" where
  \<comment> \<open>\<^verbatim>\<open>Tenant '{tenant.name}' is deleted.\<close>, raised when the parent is deleted\<close>
  "TargetDeleted t =
     ModularException RESPONSE_BAD_REQUEST_CODE (''Tenant '' @ quoted (name t) @ '' is deleted.'')"

definition LinkageAlreadySet :: "tenant \<Rightarrow> string \<Rightarrow> error" where
  \<comment> \<open>\<^verbatim>\<open>Tenant '{tenant.name}' already has '{type_}' linkage type.\<close>\<close>
  "LinkageAlreadySet t type' =
     ModularException RESPONSE_BAD_REQUEST_CODE
       (''Tenant '' @ quoted (name t) @ '' already has '' @ quoted type' @ '' linkage type.'')"

section \<open>The linkage protocol\<close>

text \<open>
  The two update actions the service builds: \<^verbatim>\<open>Tenant.parent_map.set(parent_map)\<close>
  replaces the whole map attribute, \<^verbatim>\<open>Tenant.parent_map[type_].remove()\<close> removes one
  key of it.
\<close>

datatype action =
    Set_parent_map "string dict"
  | Remove_parent_map_key string

fun apply_action :: "action \<Rightarrow> tenant \<Rightarrow> tenant" where
  "apply_action (Set_parent_map m) stored = stored\<lparr>parent_map := m\<rparr>"
| "apply_action (Remove_parent_map_key k) stored =
     stored\<lparr>parent_map := AList.delete k (parent_map stored)\<rparr>"

text \<open>
  The world of one call: the in-memory \<^verbatim>\<open>Tenant\<close> instance that the caller passes
  by reference, the item the store holds under the tenant's key (another writer may have
  changed it since the instance was read), and the update actions sent to the store so
  far, oldest first.
\<close>

record world =
  tenant_obj :: tenant
  item :: tenant
  issued :: "action list"

text \<open>
  Modelled from the spec: \<^verbatim>\<open>tenant.update(actions=...)\<close> (the model's base class is
  not among the sources). It is the attribute-update capability of section 6: the store
  applies the actions to the item it holds and answers with the updated record, which the
  instance takes over (the same reference, mutated). The service passes no condition.
\<close>

definition update :: "action list \<Rightarrow> world \<Rightarrow> world" where
  "update actions w =
     (let item' = fold apply_action actions (item w)
      in \<lparr>tenant_obj = item', item = item', issued = issued w @ actions\<rparr>)"

text \<open>
  \<^verbatim>\<open>ALLOWED_TENANT_PARENT_MAP_KEYS\<close> is a constant of \<^verbatim>\<open>modular_sdk.commons\<close>; it
  is the parameter \<open>allowed\<close>. The tenant argument of the source is \<open>tenant_obj w\<close>. The
  result is the raised error or the returned instance, with the world after the call.
\<close>

definition add_to_parent_map ::
  "string list \<Rightarrow> parent \<Rightarrow> string \<Rightarrow> world \<Rightarrow> (error + tenant) \<times> world" where
  "add_to_parent_map allowed parent' type' w =
     (let tenant' = tenant_obj w in
      if type' \<notin> set allowed then (Inl (InvalidLinkageType allowed type'), w)
      else if \<not> is_active tenant' then (Inl (EntityInactive tenant'), w)
      else if is_deleted parent' then (Inl (TargetDeleted tenant'), w)
      else
        let parent_map' = parent_map tenant' in
        if type' \<in> fst ` set parent_map' then (Inl (LinkageAlreadySet tenant' type'), w)
        else
          let parent_map' = AList.update type' (parent_id parent') parent_map';
              w' = update [Set_parent_map parent_map'] w
          in (Inr (tenant_obj w'), w'))"

definition remove_from_parent_map :: "string \<Rightarrow> world \<Rightarrow> (error + tenant) \<times> world" where
  "remove_from_parent_map type' w =
     (if \<not> is_active (tenant_obj w) then (Inr (tenant_obj w), w)
      else
        let w' = update [Remove_parent_map_key type'] w
        in (Inr (tenant_obj w'), w'))"

section \<open>The projection\<close>

text \<open>
  \<^verbatim>\<open>tenant.get_json()\<close> is a dictionary of JSON values; \<^verbatim>\<open>get_dto\<close> is modelled on
  that dictionary.
\<close>

datatype json =
    JNull
  | JBool bool
  | JInt int
  | JStr string
  | JList "json list"
  | JObj "(string \<times> json) list"

fun truthy :: "json \<Rightarrow> bool" where
  "truthy JNull = False"
| "truthy (JBool b) = b"
| "truthy (JInt i) = (i \<noteq> 0)"
| "truthy (JStr s) = (s \<noteq> [])"
| "truthy (JList xs) = (xs \<noteq> [])"
| "truthy (JObj d) = (d \<noteq> [])"

definition get :: "json dict \<Rightarrow> string \<Rightarrow> json" where
  \<comment> \<open>\<^verbatim>\<open>d.get(k)\<close>: the value, or \<^verbatim>\<open>None\<close> when the key is missing\<close>
  "get d k = (case map_of d k of None \<Rightarrow> JNull | Some v \<Rightarrow> v)"

definition ne_False :: "json \<Rightarrow> bool" where
  \<comment> \<open>\<^verbatim>\<open>v != False\<close>: Python's \<^verbatim>\<open>False\<close> equals itself and the number zero\<close>
  "ne_False v = (v \<noteq> JBool False \<and> v \<noteq> JInt 0)"

fun substring :: "string \<Rightarrow> string \<Rightarrow> bool" where
  "substring xs [] = (xs = [])"
| "substring xs (y # ys) = (take (length xs) (y # ys) = xs \<or> substring xs ys)"

text \<open>
  One round of the comprehension for the element \<open>each\<close>: the condition
  \<^verbatim>\<open>'maestro_name' in each and each.get('is_active') != False\<close> and, where it holds,
  the value \<^verbatim>\<open>each['maestro_name']\<close>. \<open>None\<close> means the element is skipped.
  Membership is key membership on a dictionary, element membership on a list, the
  substring test on a string and a \<^verbatim>\<open>TypeError\<close> on anything else; only a dictionary
  has \<^verbatim>\<open>get\<close>.
\<close>

fun select_region :: "json \<Rightarrow> error + json option" where
  "select_region (JObj d) =
     (case map_of d ''maestro_name'' of
        None \<Rightarrow> Inr None
      | Some n \<Rightarrow> if ne_False (get d ''is_active'') then Inr (Some n) else Inr None)"
| "select_region (JList xs) =
     (if JStr ''maestro_name'' \<in> set xs then Inl AttributeError else Inr None)"
| "select_region (JStr s) =
     (if substring ''maestro_name'' s then Inl AttributeError else Inr None)"
| "select_region _ = Inl TypeError"

fun comprehension :: "json list \<Rightarrow> error + json list" where
  "comprehension [] = Inr []"
| "comprehension (each # rest) =
     (case select_region each of
        Inl e \<Rightarrow> Inl e
      | Inr sel \<Rightarrow>
          (case comprehension rest of
             Inl e \<Rightarrow> Inl e
           | Inr names \<Rightarrow> Inr (case sel of None \<Rightarrow> names | Some n \<Rightarrow> n # names)))"

fun iterate :: "json \<Rightarrow> error + json list" where
  \<comment> \<open>\<^verbatim>\<open>for each in regions\<close>: a list gives its elements, a dictionary its keys, a
      string its characters; nothing else is iterable\<close>
  "iterate (JList xs) = Inr xs"
| "iterate (JObj d) = Inr (map (\<lambda>kv. JStr (fst kv)) d)"
| "iterate (JStr s) = Inr (map (\<lambda>c. JStr [c]) s)"
| "iterate _ = Inl TypeError"

definition get_dto :: "json dict \<Rightarrow> error + json dict" where
  "get_dto tenant_json =
     (let regions = (if truthy (get tenant_json ''regions'') then get tenant_json ''regions''
                     else JList []);
          popped = get tenant_json ''project'';
          tenant_json = AList.update ''account_id'' popped (AList.delete ''project'' tenant_json)
      in case iterate regions of
           Inl e \<Rightarrow> Inl e
         | Inr elems \<Rightarrow>
             (case comprehension elems of
                Inl e \<Rightarrow> Inl e
              | Inr names \<Rightarrow> Inr (AList.update ''regions'' (JList names) tenant_json)))"

text \<open>
  What one round of the comprehension takes from a dictionary element: its
  \<^verbatim>\<open>maestro_name\<close>, when it has one and its \<^verbatim>\<open>is_active\<close> is not equal to
  \<^verbatim>\<open>False\<close>.
\<close>

definition selected_name :: "json dict \<Rightarrow> json option" where
  "selected_name r = (case map_of r ''maestro_name'' of
                   None \<Rightarrow> None
                 | Some n \<Rightarrow> if ne_False (get r ''is_active'') then Some n else None)"

section \<open>Example data\<close>

definition tenant_1 :: tenant where
  "tenant_1 = \<lparr>name = ''T1'', customer_name = ''EPAM'', project = ''acc-1'',
     dntl = ''corp-unit-1'', cloud = ''AWS'', is_active = True,
     management_parent_id = Some ''p1'', parent_map = []\<rparr>"

definition tenant_2 :: tenant where
  "tenant_2 = \<lparr>name = ''T2'', customer_name = ''EPAM'', project = ''acc-2'',
     dntl = ''corp-unit-1'', cloud = ''AZURE'', is_active = False,
     management_parent_id = Some ''p2'', parent_map = []\<rparr>"

definition tenant_3 :: tenant where
  "tenant_3 = \<lparr>name = ''T3'', customer_name = ''EPAM'', project = ''acc-3'',
     dntl = ''corp-unit-1'', cloud = ''aws'', is_active = True,
     management_parent_id = None, parent_map = []\<rparr>"

definition table_1 :: "tenant list" where
  "table_1 = [tenant_1, tenant_2, tenant_3]"

text \<open>
  The clouds of the examples are ASCII text, where the Unicode case mapping is not
  consulted; the examples pass the identity for it.
\<close>

definition unicode_upper_1 :: "string \<Rightarrow> string" where
  "unicode_upper_1 s = s"

definition parent_1 :: parent where
  "parent_1 = \<lparr>parent_id = ''P1'', is_deleted = False\<rparr>"

definition parent_2 :: parent where
  "parent_2 = \<lparr>parent_id = ''P2'', is_deleted = True\<rparr>"

definition parent_3 :: parent where
  "parent_3 = \<lparr>parent_id = ''P3'', is_deleted = False\<rparr>"

definition allowed_1 :: "string list" where
  "allowed_1 = [''TENANT_MANAGER'', ''CUSTODIAN'']"

definition world_1 :: world where
  "world_1 = \<lparr>tenant_obj = tenant_1, item = tenant_1, issued = []\<rparr>"

definition world_2 :: world where
  "world_2 = \<lparr>tenant_obj = tenant_1,
               item = tenant_1\<lparr>parent_map := [(''CUSTODIAN'', ''P9'')]\<rparr>, issued = []\<rparr>"

definition world_3 :: world where
  "world_3 = \<lparr>tenant_obj = tenant_2\<lparr>parent_map := [(''CUSTODIAN'', ''P9'')]\<rparr>,
               item = tenant_2\<lparr>parent_map := [(''CUSTODIAN'', ''P9'')]\<rparr>, issued = []\<rparr>"

definition world_4 :: world where
  "world_4 = snd (add_to_parent_map allowed_1 parent_1 ''TENANT_MANAGER'' world_1)"

definition world_5 :: world where
  "world_5 = snd (add_to_parent_map allowed_1 parent_1 ''TENANT_MANAGER'' world_2)"






definition json_2 :: "json dict" where
  "json_2 = [(''name'', JStr ''T2''), (''regions'', JNull)]"

definition json_3 :: "json dict" where
  "json_3 = [(''name'', JStr ''T3'')]"

section \<open>Properties of the queries\<close>

lemma set_bounded: "set (bounded limit xs) \<subseteq> set xs"
  by (cases limit) (auto simp: bounded_def dest: in_set_takeD)

lemma upper_aws: "upper u ''aws'' = ''AWS''"
  by code_simp

subsection \<open>Scan of the active tenants\<close>

text \<open>
  C3: a scan with \<open>only_active\<close> set returns no inactive tenant. The condition starts as
  \<^verbatim>\<open>None\<close> and \<^verbatim>\<open>&=\<close> turns it into \<^verbatim>\<open>is_active == True\<close>, so both
  \<open>i_scan_tenants\<close> and \<open>scan_tenants\<close> return exactly the active items after the cursor,
  up to the limit: every returned tenant is active and no inactive tenant is returned.
\<close>

theorem scan_only_active_excludes_inactive:
  "i_scan_tenants True limit lek table = bounded limit (filter is_active (resume lek table))
   \<and> scan_tenants True limit lek table = i_scan_tenants True limit lek table
   \<and> (\<forall>E. \<not> is_active E \<longrightarrow> E \<notin> set (scan_tenants True limit lek table))
   \<and> (\<forall>t \<in> set (i_scan_tenants True limit lek table). is_active t)"
proof -
  have sat: "satisfies (Some (Eq_is_active True)) = is_active"
    by (rule ext) (simp add: satisfies_def)
  have eq: "i_scan_tenants True limit lek table = bounded limit (filter is_active (resume lek table))"
    by (simp add: i_scan_tenants_def scan_def sat)
  have act: "\<forall>t \<in> set (i_scan_tenants True limit lek table). is_active t"
    unfolding eq using set_bounded [of limit "filter is_active (resume lek table)"] by auto
  have same: "scan_tenants True limit lek table = i_scan_tenants True limit lek table"
    by (simp add: scan_tenants_def)
  have "\<forall>E. \<not> is_active E \<longrightarrow> E \<notin> set (scan_tenants True limit lek table)"
    unfolding same using act by blast
  with eq same act show ?thesis by (intro conjI)
qed

lemma eval_scan_1: "scan_tenants True None None table_1 = [tenant_1, tenant_3]"
  by (simp add: scan_tenants_def i_scan_tenants_def scan_def satisfies_def bounded_def
        resume_def table_1_def tenant_1_def tenant_2_def tenant_3_def)

theorem scan_only_active_witness:
  "\<not> is_active tenant_2 \<and> tenant_2 \<in> set table_1
   \<and> tenant_2 \<notin> set (scan_tenants True None None table_1)
   \<and> scan_tenants True None None table_1 = [tenant_1, tenant_3]"
proof -
  note T = scan_only_active_excludes_inactive [of None None table_1]
  have inactive: "\<not> is_active tenant_2"
    by (simp add: tenant_2_def)
  have out: "tenant_2 \<notin> set (scan_tenants True None None table_1)"
    using T [THEN conjunct2, THEN conjunct2, THEN conjunct1] inactive by blast
  have "tenant_2 \<in> set table_1"
    by (simp add: table_1_def)
  with inactive out eval_scan_1 show ?thesis by (intro conjI)
qed

subsection \<open>Tenants of a parent\<close>

lemma by_parent_id_without_active:
  "i_get_tenant_by_parent_id p None limit lek table = bounded limit (resume lek table)"
  by (simp add: i_get_tenant_by_parent_id_def is_active_condition_def scan_def satisfies_def)

lemma by_parent_id_with_active:
  "t \<in> set (i_get_tenant_by_parent_id p (Some a) limit lek table)
     \<Longrightarrow> management_parent_id t = Some p \<and> is_active t = a"
  using set_bounded [of limit "filter (satisfies (Some (And (Eq_is_active a)
          (Eq_management_parent_id p)))) (resume lek table)"]
  by (auto simp: i_get_tenant_by_parent_id_def is_active_condition_def scan_def satisfies_def)

text \<open>
  C2: every tenant returned by \<open>i_get_tenant_by_parent_id\<close> has the given management
  parent id, also when \<open>active\<close> is absent. The code adds the parent-id comparison only
  when the activity condition is present: with \<open>active\<close> absent the condition stays
  \<^verbatim>\<open>None\<close> and the scan is unfiltered. Asked for the tenants of parent \<^verbatim>\<open>p1\<close> without
  an activity filter, it returns the whole table, with a tenant of parent \<^verbatim>\<open>p2\<close> and a
  tenant that has no management parent.
\<close>

theorem by_parent_id_without_active_drops_parent_filter:
  "i_get_tenant_by_parent_id ''p1'' None None None table_1 = [tenant_1, tenant_2, tenant_3]
   \<and> management_parent_id tenant_2 = Some ''p2''
   \<and> management_parent_id tenant_3 = None"
  by (simp add: i_get_tenant_by_parent_id_def is_active_condition_def scan_def satisfies_def
        bounded_def resume_def table_1_def tenant_2_def tenant_3_def)

subsection \<open>Tenants of a customer\<close>

lemma customer_condition_no_name:
  "tenant_name = None \<or> tenant_name = Some [] \<Longrightarrow>
     customer_condition active tenant_name = is_active_condition active"
  by (auto simp: customer_condition_def default_instance_def)

lemma customer_condition_name:
  "n \<noteq> [] \<Longrightarrow> customer_condition active (Some n) =
     (case active of None \<Rightarrow> Some (Eq_name n) | Some a \<Rightarrow> Some (And (Eq_is_active a) (Eq_name n)))"
  by (cases active) (simp_all add: customer_condition_def default_instance_def is_active_condition_def)

text \<open>
  C8: in \<open>i_get_tenant_by_customer\<close> an absent or empty tenant name is no filter on the
  name: the condition passed to the query is the activity condition alone (or none), and
  the result is that of the query without a name conjunct. A non-empty name adds the
  comparison \<^verbatim>\<open>name == tenant_name\<close>, conjoined with the activity comparison when there
  is one, and every returned tenant carries that name, the customer and the activity
  asked for.
\<close>

theorem by_customer_empty_name_is_no_filter:
  "(tenant_name = None \<or> tenant_name = Some [] \<longrightarrow>
      customer_condition active tenant_name = is_active_condition active
      \<and> i_get_tenant_by_customer customer_id active tenant_name limit lek table
          = query customer_name customer_id None (is_active_condition active) limit lek table)
   \<and> (\<forall>n. tenant_name = Some n \<and> n \<noteq> [] \<longrightarrow>
        customer_condition active tenant_name =
          (case active of None \<Rightarrow> Some (Eq_name n)
                        | Some a \<Rightarrow> Some (And (Eq_is_active a) (Eq_name n)))
        \<and> (\<forall>t \<in> set (i_get_tenant_by_customer customer_id active tenant_name limit lek table).
              name t = n \<and> customer_name t = customer_id \<and> (\<forall>a. active = Some a \<longrightarrow> is_active t = a)))"
proof (intro conjI impI allI)
  assume "tenant_name = None \<or> tenant_name = Some []"
  then show c: "customer_condition active tenant_name = is_active_condition active"
    by (rule customer_condition_no_name)
  then show "i_get_tenant_by_customer customer_id active tenant_name limit lek table
          = query customer_name customer_id None (is_active_condition active) limit lek table"
    by (simp add: i_get_tenant_by_customer_def)
next
  fix n assume n: "tenant_name = Some n \<and> n \<noteq> []"
  then show c: "customer_condition active tenant_name =
          (case active of None \<Rightarrow> Some (Eq_name n)
                        | Some a \<Rightarrow> Some (And (Eq_is_active a) (Eq_name n)))"
    using customer_condition_name [of n active] by simp
  show "\<forall>t \<in> set (i_get_tenant_by_customer customer_id active tenant_name limit lek table).
              name t = n \<and> customer_name t = customer_id \<and> (\<forall>a. active = Some a \<longrightarrow> is_active t = a)"
  proof
    fix t assume "t \<in> set (i_get_tenant_by_customer customer_id active tenant_name limit lek table)"
    then have "t \<in> set (filter (\<lambda>t. customer_name t = customer_id \<and> satisfies None t
                     \<and> satisfies (customer_condition active tenant_name) t) (resume lek table))"
      unfolding i_get_tenant_by_customer_def query_def using set_bounded by blast
    then show "name t = n \<and> customer_name t = customer_id \<and> (\<forall>a. active = Some a \<longrightarrow> is_active t = a)"
      unfolding c by (cases active) (auto simp: satisfies_def)
  qed
qed



lemma eval_customer_1:
  "i_get_tenant_by_customer ''EPAM'' (Some True) (Some []) None None table_1 = [tenant_1, tenant_3]"
  by (simp add: i_get_tenant_by_customer_def customer_condition_def default_instance_def query_def
        bounded_def resume_def satisfies_def is_active_condition_def
        table_1_def tenant_1_def tenant_2_def tenant_3_def)

lemma eval_customer_2:
  "i_get_tenant_by_customer ''EPAM'' (Some True) (Some ''T3'') None None table_1 = [tenant_3]"
  by (simp add: i_get_tenant_by_customer_def customer_condition_def default_instance_def query_def
        bounded_def resume_def satisfies_def is_active_condition_def
        table_1_def tenant_1_def tenant_2_def tenant_3_def)

theorem by_customer_empty_name_witness:
  "customer_condition (Some True) (Some []) = Some (Eq_is_active True)
   \<and> customer_condition None None = None
   \<and> i_get_tenant_by_customer ''EPAM'' (Some True) (Some []) None None table_1 = [tenant_1, tenant_3]
   \<and> tenant_3 \<in> set (i_get_tenant_by_customer ''EPAM'' (Some True) (Some ''T3'') None None table_1)
   \<and> name tenant_3 = ''T3'' \<and> is_active tenant_3"
proof -
  note empty = by_customer_empty_name_is_no_filter
                 [of "Some []" "Some True" "''EPAM''" None None table_1, THEN conjunct1, THEN mp]
  note absent = by_customer_empty_name_is_no_filter
                 [of None None "''EPAM''" None None table_1, THEN conjunct1, THEN mp]
  note named = by_customer_empty_name_is_no_filter
                 [of "Some ''T3''" "Some True" "''EPAM''" None None table_1, THEN conjunct2,
                  THEN spec, of "''T3''", THEN mp]
  have a: "customer_condition (Some True) (Some []) = Some (Eq_is_active True)"
    using empty by (simp add: is_active_condition_def)
  have b: "customer_condition None None = None"
    using absent by (simp add: is_active_condition_def)
  have m: "tenant_3 \<in> set (i_get_tenant_by_customer ''EPAM'' (Some True) (Some ''T3'') None None table_1)"
    by (simp add: eval_customer_2)
  have "\<forall>t \<in> set (i_get_tenant_by_customer ''EPAM'' (Some True) (Some ''T3'') None None table_1).
          name t = ''T3'' \<and> customer_name t = ''EPAM'' \<and> (\<forall>a. Some True = Some a \<longrightarrow> is_active t = a)"
    using named by simp
  then have c: "name tenant_3 = ''T3'' \<and> is_active tenant_3"
    using m by blast
  show ?thesis using a b c m eval_customer_1 by simp
qed

subsection \<open>Tenants of a directory name\<close>

text \<open>
  C9: in \<open>i_get_by_dntl\<close> a given cloud is put to upper case before it becomes the
  range-key condition: the result is exactly the items of the directory name whose cloud
  equals the upper-cased argument (and that pass the activity filter). For an ASCII
  argument the upper-cased argument is the argument with its letters \<^verbatim>\<open>a\<close> to
  \<^verbatim>\<open>z\<close> capitalised, so a query with cloud \<^verbatim>\<open>aws\<close> returns only items whose cloud
  is \<^verbatim>\<open>AWS\<close>. Without a cloud there is no range-key condition.
\<close>

theorem by_dntl_cloud_is_uppercased:
  "i_get_by_dntl u d (Some c) active limit lek table =
     bounded limit (filter (\<lambda>t. dntl t = d \<and> cloud t = upper u c
                                 \<and> satisfies (is_active_condition active) t) (resume lek table))
   \<and> (\<forall>t \<in> set (i_get_by_dntl u d (Some c) active limit lek table).
         dntl t = d \<and> cloud t = upper u c)
   \<and> (is_ascii c \<longrightarrow> upper u c = map upper_char c)
   \<and> (\<forall>t \<in> set (i_get_by_dntl u d (Some ''aws'') active limit lek table). cloud t = ''AWS'')
   \<and> i_get_by_dntl u d None active limit lek table =
     bounded limit (filter (\<lambda>t. dntl t = d \<and> satisfies (is_active_condition active) t)
                      (resume lek table))"
proof -
  have eq: "\<And>c. i_get_by_dntl u d (Some c) active limit lek table =
     bounded limit (filter (\<lambda>t. dntl t = d \<and> cloud t = upper u c
                                 \<and> satisfies (is_active_condition active) t) (resume lek table))"
    by (simp add: i_get_by_dntl_def cloud_condition_def query_def satisfies_def)
  have mem: "\<And>c. \<forall>t \<in> set (i_get_by_dntl u d (Some c) active limit lek table).
                 dntl t = d \<and> cloud t = upper u c"
  proof
    fix c t assume "t \<in> set (i_get_by_dntl u d (Some c) active limit lek table)"
    then have "t \<in> set (filter (\<lambda>t. dntl t = d \<and> cloud t = upper u c
                \<and> satisfies (is_active_condition active) t) (resume lek table))"
      unfolding eq using set_bounded by blast
    then show "dntl t = d \<and> cloud t = upper u c" by simp
  qed
  have ascii: "is_ascii c \<longrightarrow> upper u c = map upper_char c"
    by (simp add: upper_def)
  have aws: "\<forall>t \<in> set (i_get_by_dntl u d (Some ''aws'') active limit lek table). cloud t = ''AWS''"
    using mem [of "''aws''"] unfolding upper_aws by blast
  have none: "i_get_by_dntl u d None active limit lek table =
     bounded limit (filter (\<lambda>t. dntl t = d \<and> satisfies (is_active_condition active) t)
                      (resume lek table))"
    by (simp add: i_get_by_dntl_def cloud_condition_def query_def satisfies_def)
  from eq [of c] mem [of c] ascii aws none show ?thesis by (intro conjI)
qed

lemma eval_dntl_1:
  "i_get_by_dntl unicode_upper_1 ''corp-unit-1'' (Some ''aws'') None None None table_1 = [tenant_1]"
  by (simp add: i_get_by_dntl_def cloud_condition_def query_def satisfies_def upper_aws
        is_active_condition_def bounded_def resume_def table_1_def tenant_1_def tenant_2_def tenant_3_def)

lemma is_ascii_aws: "is_ascii ''aws''"
  by code_simp

theorem by_dntl_cloud_witness:
  "i_get_by_dntl unicode_upper_1 ''corp-unit-1'' (Some ''aws'') None None None table_1 = [tenant_1]
   \<and> tenant_1 \<in> set (i_get_by_dntl unicode_upper_1 ''corp-unit-1'' (Some ''aws'') None None None table_1)
   \<and> cloud tenant_1 = ''AWS'' \<and> dntl tenant_1 = ''corp-unit-1''
   \<and> is_ascii ''aws'' \<and> upper unicode_upper_1 ''aws'' = map upper_char ''aws''"
proof -
  note T = by_dntl_cloud_is_uppercased
             [of unicode_upper_1 "''corp-unit-1''" "''aws''" None None None table_1]
  have m: "tenant_1 \<in> set (i_get_by_dntl unicode_upper_1 ''corp-unit-1'' (Some ''aws'') None None None table_1)"
    by (simp add: eval_dntl_1)
  have c: "cloud tenant_1 = ''AWS''"
    using T [THEN conjunct2, THEN conjunct2, THEN conjunct2, THEN conjunct1] m by blast
  have d: "dntl tenant_1 = ''corp-unit-1''"
    using T [THEN conjunct2, THEN conjunct1] m by blast
  have a: "upper unicode_upper_1 ''aws'' = map upper_char ''aws''"
    using T [THEN conjunct2, THEN conjunct2, THEN conjunct1, THEN mp, OF is_ascii_aws] .
  from eval_dntl_1 m c d is_ascii_aws a show ?thesis by (intro conjI)
qed

section \<open>Properties of the linkage protocol\<close>

lemma attach_success:
  assumes "type' \<in> set allowed" and "is_active (tenant_obj w)" and "\<not> is_deleted parent'"
    and "type' \<notin> fst ` set (parent_map (tenant_obj w))"
  shows "add_to_parent_map allowed parent' type' w =
           (Inr (tenant_obj (update [Set_parent_map
                   (AList.update type' (parent_id parent') (parent_map (tenant_obj w)))] w)),
            update [Set_parent_map
                   (AList.update type' (parent_id parent') (parent_map (tenant_obj w)))] w)"
  using assms by (simp add: add_to_parent_map_def Let_def)

lemma update_set_parent_map:
  "update [Set_parent_map m] w =
     \<lparr>tenant_obj = (item w)\<lparr>parent_map := m\<rparr>, item = (item w)\<lparr>parent_map := m\<rparr>,
      issued = issued w @ [Set_parent_map m]\<rparr>"
  by (simp add: update_def Let_def)

lemma attach_result_cases:
  "add_to_parent_map allowed parent' type' w = (r, w') \<Longrightarrow>
     (\<exists>e. r = Inl e \<and> w' = w)
     \<or> (type' \<in> set allowed \<and> is_active (tenant_obj w) \<and> \<not> is_deleted parent'
        \<and> type' \<notin> fst ` set (parent_map (tenant_obj w))
        \<and> w' = update [Set_parent_map
                   (AList.update type' (parent_id parent') (parent_map (tenant_obj w)))] w
        \<and> r = Inr (tenant_obj w'))"
  by (auto simp: add_to_parent_map_def Let_def split: if_splits)

lemma attach_success_sets_key:
  assumes "add_to_parent_map allowed parent' type' w = (Inr t1, w1)"
  shows "t1 = tenant_obj w1
         \<and> parent_map t1 = AList.update type' (parent_id parent') (parent_map (tenant_obj w))
         \<and> type' \<in> fst ` set (parent_map (tenant_obj w1)) \<and> type' \<in> set allowed"
proof -
  from attach_result_cases [OF assms]
  have *: "type' \<in> set allowed"
    "w1 = update [Set_parent_map
                   (AList.update type' (parent_id parent') (parent_map (tenant_obj w)))] w"
    "t1 = tenant_obj w1" by auto
  have "type' \<in> fst ` set (AList.update type' (parent_id parent') (parent_map (tenant_obj w)))"
    by (simp add: AList.dom_update)
  with * show ?thesis by (simp add: update_set_parent_map)
qed

lemma world_4_eq:
  "world_4 = \<lparr>tenant_obj = tenant_1\<lparr>parent_map := [(''TENANT_MANAGER'', ''P1'')]\<rparr>,
              item = tenant_1\<lparr>parent_map := [(''TENANT_MANAGER'', ''P1'')]\<rparr>,
              issued = [Set_parent_map [(''TENANT_MANAGER'', ''P1'')]]\<rparr>"
  by (simp add: world_4_def add_to_parent_map_def Let_def update_def world_1_def allowed_1_def
        parent_1_def tenant_1_def)

lemma first_attach_succeeds:
  "add_to_parent_map allowed_1 parent_1 ''TENANT_MANAGER'' world_1 = (Inr (tenant_obj world_4), world_4)"
  by (simp add: world_4_def add_to_parent_map_def Let_def world_1_def allowed_1_def
        parent_1_def tenant_1_def)

lemma world_5_eq:
  "world_5 = \<lparr>tenant_obj = tenant_1\<lparr>parent_map := [(''TENANT_MANAGER'', ''P1'')]\<rparr>,
              item = tenant_1\<lparr>parent_map := [(''TENANT_MANAGER'', ''P1'')]\<rparr>,
              issued = [Set_parent_map [(''TENANT_MANAGER'', ''P1'')]]\<rparr>"
  by (simp add: world_5_def add_to_parent_map_def Let_def update_def world_2_def allowed_1_def
        parent_1_def tenant_1_def)

subsection \<open>Attach\<close>

text \<open>
  C5: a linkage type outside the allow-list makes \<open>add_to_parent_map\<close> fail with
  \<open>InvalidLinkageType\<close>, whatever the tenant, the parent and the linkage map are (the
  check comes first), and the world after the call is the world before it: the instance
  and the stored item are not changed and no update is issued.
\<close>

theorem attach_rejects_unlisted_type:
  "type' \<notin> set allowed \<Longrightarrow>
     add_to_parent_map allowed parent' type' w = (Inl (InvalidLinkageType allowed type'), w)"
  by (simp add: add_to_parent_map_def)

theorem attach_rejects_unlisted_type_witness:
  "''SIEM'' \<notin> set allowed_1 \<and> \<not> is_active (tenant_obj world_3) \<and> is_deleted parent_2
   \<and> add_to_parent_map allowed_1 parent_2 ''SIEM'' world_3
       = (Inl (InvalidLinkageType allowed_1 ''SIEM''), world_3)"
proof -
  have h: "''SIEM'' \<notin> set allowed_1" by (simp add: allowed_1_def)
  have a: "\<not> is_active (tenant_obj world_3)" by (simp add: world_3_def tenant_2_def)
  have d: "is_deleted parent_2" by (simp add: parent_2_def)
  from h a d attach_rejects_unlisted_type [OF h, of parent_2 world_3] show ?thesis by (intro conjI)
qed

text \<open>
  C4, as stated, fails: after a first successful attach of \<^verbatim>\<open>TENANT_MANAGER\<close> the
  linkage map contains the type, and a second attach of that type whose target parent is
  deleted fails at the parent check, which comes before the linkage check, with
  \<open>TargetDeleted\<close> and not with \<open>LinkageAlreadySet\<close>.
\<close>

theorem second_attach_deleted_parent_not_already_set:
  "add_to_parent_map allowed_1 parent_1 ''TENANT_MANAGER'' world_1 = (Inr (tenant_obj world_4), world_4)
   \<and> map_of (parent_map (tenant_obj world_4)) ''TENANT_MANAGER'' = Some ''P1''
   \<and> add_to_parent_map allowed_1 parent_2 ''TENANT_MANAGER'' world_4
        = (Inl (TargetDeleted (tenant_obj world_4)), world_4)
   \<and> TargetDeleted (tenant_obj world_4) \<noteq> LinkageAlreadySet (tenant_obj world_4) ''TENANT_MANAGER''"
proof -
  have m: "map_of (parent_map (tenant_obj world_4)) ''TENANT_MANAGER'' = Some ''P1''"
    by (simp add: world_4_eq)
  have s: "add_to_parent_map allowed_1 parent_2 ''TENANT_MANAGER'' world_4
        = (Inl (TargetDeleted (tenant_obj world_4)), world_4)"
    by (simp add: add_to_parent_map_def Let_def world_4_eq allowed_1_def parent_2_def tenant_1_def)
  have n: "TargetDeleted (tenant_obj world_4) \<noteq> LinkageAlreadySet (tenant_obj world_4) ''TENANT_MANAGER''"
    by (simp add: TargetDeleted_def LinkageAlreadySet_def quoted_def world_4_eq tenant_1_def)
  from first_attach_succeeds m s n show ?thesis by (intro conjI)
qed

text \<open>
  C4, amended: on a tenant whose linkage map already contains the linkage type, as it
  does after a first successful attach, \<open>add_to_parent_map\<close> of that type fails and the
  world after the call is the world before it (the linkage map is not changed and no
  update is issued). The error is that of the first check that fails:
  \<open>InvalidLinkageType\<close> when the type is not allow-listed, else \<open>EntityInactive\<close> when
  the tenant is not active, else \<open>TargetDeleted\<close> when the target parent is deleted, and
  \<open>LinkageAlreadySet\<close> otherwise, that is, when the type is allow-listed, the tenant is
  active and the target parent is not deleted.
\<close>

theorem attach_on_set_linkage_fails:
  assumes "type' \<in> fst ` set (parent_map (tenant_obj w))"
  shows "add_to_parent_map allowed parent' type' w =
           (Inl (if type' \<notin> set allowed then InvalidLinkageType allowed type'
                 else if \<not> is_active (tenant_obj w) then EntityInactive (tenant_obj w)
                 else if is_deleted parent' then TargetDeleted (tenant_obj w)
                 else LinkageAlreadySet (tenant_obj w) type'), w)
         \<and> (\<exists>e. add_to_parent_map allowed parent' type' w = (Inl e, w))
         \<and> (type' \<in> set allowed \<and> is_active (tenant_obj w) \<and> \<not> is_deleted parent' \<longrightarrow>
              add_to_parent_map allowed parent' type' w
                = (Inl (LinkageAlreadySet (tenant_obj w) type'), w))"
  using assms by (simp add: add_to_parent_map_def Let_def)

theorem attach_on_set_linkage_witness:
  "add_to_parent_map allowed_1 parent_1 ''TENANT_MANAGER'' world_1 = (Inr (tenant_obj world_4), world_4)
   \<and> ''TENANT_MANAGER'' \<in> fst ` set (parent_map (tenant_obj world_4))
   \<and> add_to_parent_map allowed_1 parent_3 ''TENANT_MANAGER'' world_4
       = (Inl (LinkageAlreadySet (tenant_obj world_4) ''TENANT_MANAGER''), world_4)
   \<and> add_to_parent_map allowed_1 parent_2 ''TENANT_MANAGER'' world_4
       = (Inl (TargetDeleted (tenant_obj world_4)), world_4)
   \<and> ''CUSTODIAN'' \<in> fst ` set (parent_map (tenant_obj world_3))
   \<and> add_to_parent_map allowed_1 parent_1 ''CUSTODIAN'' world_3
       = (Inl (EntityInactive (tenant_obj world_3)), world_3)
   \<and> parent_map (tenant_obj world_4) = [(''TENANT_MANAGER'', ''P1'')]"
proof -
  have k: "''TENANT_MANAGER'' \<in> fst ` set (parent_map (tenant_obj world_4))"
    using attach_success_sets_key [OF first_attach_succeeds] by blast
  have pre: "''TENANT_MANAGER'' \<in> set allowed_1 \<and> is_active (tenant_obj world_4)
             \<and> \<not> is_deleted parent_3"
    by (simp add: allowed_1_def world_4_eq tenant_1_def parent_3_def)
  have s: "add_to_parent_map allowed_1 parent_3 ''TENANT_MANAGER'' world_4
       = (Inl (LinkageAlreadySet (tenant_obj world_4) ''TENANT_MANAGER''), world_4)"
    using attach_on_set_linkage_fails [OF k, of allowed_1 parent_3, THEN conjunct2, THEN conjunct2]
      pre by blast
  have e2: "(if ''TENANT_MANAGER'' \<notin> set allowed_1 then InvalidLinkageType allowed_1 ''TENANT_MANAGER''
             else if \<not> is_active (tenant_obj world_4) then EntityInactive (tenant_obj world_4)
             else if is_deleted parent_2 then TargetDeleted (tenant_obj world_4)
             else LinkageAlreadySet (tenant_obj world_4) ''TENANT_MANAGER'')
            = TargetDeleted (tenant_obj world_4)"
    by (simp add: allowed_1_def world_4_eq tenant_1_def parent_2_def)
  have d: "add_to_parent_map allowed_1 parent_2 ''TENANT_MANAGER'' world_4
       = (Inl (TargetDeleted (tenant_obj world_4)), world_4)"
    using attach_on_set_linkage_fails [OF k, of allowed_1 parent_2, THEN conjunct1]
    unfolding e2 .
  have k3: "''CUSTODIAN'' \<in> fst ` set (parent_map (tenant_obj world_3))"
    by (simp add: world_3_def)
  have e3: "(if ''CUSTODIAN'' \<notin> set allowed_1 then InvalidLinkageType allowed_1 ''CUSTODIAN''
             else if \<not> is_active (tenant_obj world_3) then EntityInactive (tenant_obj world_3)
             else if is_deleted parent_1 then TargetDeleted (tenant_obj world_3)
             else LinkageAlreadySet (tenant_obj world_3) ''CUSTODIAN'')
            = EntityInactive (tenant_obj world_3)"
    by (simp add: allowed_1_def world_3_def tenant_2_def)
  have i: "add_to_parent_map allowed_1 parent_1 ''CUSTODIAN'' world_3
       = (Inl (EntityInactive (tenant_obj world_3)), world_3)"
    using attach_on_set_linkage_fails [OF k3, of allowed_1 parent_1, THEN conjunct1]
    unfolding e3 .
  have m: "parent_map (tenant_obj world_4) = [(''TENANT_MANAGER'', ''P1'')]"
    by (simp add: world_4_eq)
  from first_attach_succeeds k s d k3 i m show ?thesis by (intro conjI)
qed

text \<open>
  C1, as stated, fails: the instance was read with an empty linkage map, another writer
  has stored \<^verbatim>\<open>CUSTODIAN\<close> since, and the attach of \<^verbatim>\<open>TENANT_MANAGER\<close> sends the
  whole map of the instance with the new key: the stored \<^verbatim>\<open>CUSTODIAN\<close> key is gone.
\<close>

theorem attach_overwrites_concurrent_key:
  "add_to_parent_map allowed_1 parent_1 ''TENANT_MANAGER'' world_2 = (Inr (tenant_obj world_5), world_5)
   \<and> map_of (parent_map (item world_2)) ''CUSTODIAN'' = Some ''P9''
   \<and> map_of (parent_map (item world_5)) ''CUSTODIAN'' = None
   \<and> issued world_5 = [Set_parent_map [(''TENANT_MANAGER'', ''P1'')]]"
proof -
  have a: "add_to_parent_map allowed_1 parent_1 ''TENANT_MANAGER'' world_2
             = (Inr (tenant_obj world_5), world_5)"
    by (simp add: world_5_def add_to_parent_map_def Let_def world_2_def allowed_1_def
          parent_1_def tenant_1_def)
  have b: "map_of (parent_map (item world_2)) ''CUSTODIAN'' = Some ''P9''"
    by (simp add: world_2_def)
  have c: "map_of (parent_map (item world_5)) ''CUSTODIAN'' = None"
    by (simp add: world_5_eq)
  have d: "issued world_5 = [Set_parent_map [(''TENANT_MANAGER'', ''P1'')]]"
    by (simp add: world_5_eq)
  from a b c d show ?thesis by (intro conjI)
qed

text \<open>
  C1, amended: an attach that passes all four checks issues exactly one update, and it
  sets the whole \<open>parent_map\<close> attribute to the linkage map of the in-memory instance
  extended by the linkage type. Afterwards the stored map holds the parent's id under the
  linkage type and, under every other key, what the instance held before the call (not
  what the store held): it is a read-modify-write of the whole map.
\<close>

theorem attach_sets_whole_map:
  assumes "type' \<in> set allowed" and "is_active (tenant_obj w)" and "\<not> is_deleted parent'"
    and "type' \<notin> fst ` set (parent_map (tenant_obj w))"
  shows "\<exists>w'. add_to_parent_map allowed parent' type' w = (Inr (tenant_obj w'), w')
           \<and> issued w' = issued w @ [Set_parent_map
                 (AList.update type' (parent_id parent') (parent_map (tenant_obj w)))]
           \<and> parent_map (item w') = AList.update type' (parent_id parent') (parent_map (tenant_obj w))
           \<and> parent_map (tenant_obj w') = parent_map (item w')
           \<and> map_of (parent_map (item w')) type' = Some (parent_id parent')
           \<and> (\<forall>k. k \<noteq> type' \<longrightarrow>
                 map_of (parent_map (item w')) k = map_of (parent_map (tenant_obj w)) k)"
  unfolding attach_success [OF assms]
  by (simp add: update_set_parent_map AList.update_conv')

theorem attach_sets_whole_map_witness:
  "''TENANT_MANAGER'' \<in> set allowed_1 \<and> is_active (tenant_obj world_2) \<and> \<not> is_deleted parent_1
   \<and> ''TENANT_MANAGER'' \<notin> fst ` set (parent_map (tenant_obj world_2))
   \<and> (\<exists>w'. add_to_parent_map allowed_1 parent_1 ''TENANT_MANAGER'' world_2 = (Inr (tenant_obj w'), w')
         \<and> issued w' = issued world_2 @ [Set_parent_map
                 (AList.update ''TENANT_MANAGER'' (parent_id parent_1) (parent_map (tenant_obj world_2)))]
         \<and> map_of (parent_map (item w')) ''CUSTODIAN'' = map_of (parent_map (tenant_obj world_2)) ''CUSTODIAN'')
   \<and> map_of (parent_map (tenant_obj world_2)) ''CUSTODIAN'' = None"
proof -
  have h1: "''TENANT_MANAGER'' \<in> set allowed_1" by (simp add: allowed_1_def)
  have h2: "is_active (tenant_obj world_2)" by (simp add: world_2_def tenant_1_def)
  have h3: "\<not> is_deleted parent_1" by (simp add: parent_1_def)
  have h4: "''TENANT_MANAGER'' \<notin> fst ` set (parent_map (tenant_obj world_2))"
    by (simp add: world_2_def tenant_1_def)
  have n: "map_of (parent_map (tenant_obj world_2)) ''CUSTODIAN'' = None"
    by (simp add: world_2_def tenant_1_def)
  from attach_sets_whole_map [OF h1 h2 h3 h4]
  obtain w' where r: "add_to_parent_map allowed_1 parent_1 ''TENANT_MANAGER'' world_2 = (Inr (tenant_obj w'), w')"
    and i: "issued w' = issued world_2 @ [Set_parent_map
                 (AList.update ''TENANT_MANAGER'' (parent_id parent_1) (parent_map (tenant_obj world_2)))]"
    and o: "\<forall>k. k \<noteq> ''TENANT_MANAGER'' \<longrightarrow>
                 map_of (parent_map (item w')) k = map_of (parent_map (tenant_obj world_2)) k"
    by (elim exE conjE)
  have ne: "''CUSTODIAN'' \<noteq> ''TENANT_MANAGER''" by simp
  have "map_of (parent_map (item w')) ''CUSTODIAN'' = map_of (parent_map (tenant_obj world_2)) ''CUSTODIAN''"
    using o [THEN spec, of "''CUSTODIAN''", THEN mp, OF ne] .
  with r i
  have "\<exists>w'. add_to_parent_map allowed_1 parent_1 ''TENANT_MANAGER'' world_2 = (Inr (tenant_obj w'), w')
         \<and> issued w' = issued world_2 @ [Set_parent_map
                 (AList.update ''TENANT_MANAGER'' (parent_id parent_1) (parent_map (tenant_obj world_2)))]
         \<and> map_of (parent_map (item w')) ''CUSTODIAN'' = map_of (parent_map (tenant_obj world_2)) ''CUSTODIAN''"
    by (intro exI [where x = w'] conjI)
  with h1 h2 h3 h4 n show ?thesis by (intro conjI)
qed

subsection \<open>Detach\<close>

text \<open>
  C6: on an inactive tenant \<open>remove_from_parent_map\<close> returns the instance and leaves the
  world as it is, for any linkage type: it does not fail, it sends no update, and any
  sequence of such calls leaves the world, and so the linkage map, unchanged.
\<close>

theorem detach_inactive_is_noop:
  "\<not> is_active (tenant_obj w) \<Longrightarrow>
     remove_from_parent_map type' w = (Inr (tenant_obj w), w)
     \<and> fold (\<lambda>ty w'. snd (remove_from_parent_map ty w')) types w = w"
proof -
  assume inactive: "\<not> is_active (tenant_obj w)"
  then have one: "\<And>ty. remove_from_parent_map ty w = (Inr (tenant_obj w), w)"
    by (simp add: remove_from_parent_map_def)
  have "fold (\<lambda>ty w'. snd (remove_from_parent_map ty w')) types w = w"
    by (induction types) (simp_all add: one)
  with one show ?thesis by simp
qed

theorem detach_inactive_witness:
  "\<not> is_active (tenant_obj world_3)
   \<and> remove_from_parent_map ''CUSTODIAN'' world_3 = (Inr (tenant_obj world_3), world_3)
   \<and> fold (\<lambda>ty w'. snd (remove_from_parent_map ty w')) [''CUSTODIAN'', ''CUSTODIAN'', ''SIEM''] world_3
       = world_3
   \<and> parent_map (tenant_obj world_3) = [(''CUSTODIAN'', ''P9'')]"
proof -
  have a: "\<not> is_active (tenant_obj world_3)" by (simp add: world_3_def tenant_2_def)
  have p: "parent_map (tenant_obj world_3) = [(''CUSTODIAN'', ''P9'')]" by (simp add: world_3_def)
  note T = detach_inactive_is_noop [OF a, of "''CUSTODIAN''" "[''CUSTODIAN'', ''CUSTODIAN'', ''SIEM'']"]
  from a T [THEN conjunct1] T [THEN conjunct2] p show ?thesis by (intro conjI)
qed

section \<open>Properties of the projection\<close>

lemma comprehension_objects:
  "comprehension (map JObj rs) = Inr (List.map_filter selected_name rs)"
  by (induction rs) (auto simp: selected_name_def split: option.splits)

lemma get_dto_regions_absent:
  assumes "map_of tj ''regions'' = None \<or> map_of tj ''regions'' = Some JNull"
  shows "get_dto tj =
           Inr (AList.update ''regions'' (JList [])
                  (AList.update ''account_id'' (get tj ''project'') (AList.delete ''project'' tj)))"
  using assms by (auto simp: get_dto_def get_def Let_def)

lemma get_dto_regions_objects:
  assumes "map_of tj ''regions'' = Some (JList (map JObj rs))"
  shows "get_dto tj =
           Inr (AList.update ''regions'' (JList (List.map_filter selected_name rs))
                  (AList.update ''account_id'' (get tj ''project'') (AList.delete ''project'' tj)))"
proof (cases "rs = []")
  case True
  with assms show ?thesis by (simp add: get_dto_def get_def Let_def)
next
  case False
  with assms show ?thesis
    by (simp add: get_dto_def get_def Let_def comprehension_objects)
qed



lemma map_of_projected:
  "map_of (AList.update ''regions'' rv (AList.update ''account_id'' av (AList.delete ''project'' tj))) k
     = (if k = ''regions'' then Some rv else if k = ''account_id'' then Some av
        else if k = ''project'' then None else map_of tj k)"
  by (simp add: AList.update_conv' AList.delete_conv')


lemma eval_get_dto_2:
  "get_dto json_2 = Inr [(''name'', JStr ''T2''), (''regions'', JList []), (''account_id'', JNull)]"
  by (simp add: get_dto_def json_2_def get_def Let_def)

lemma eval_get_dto_3:
  "get_dto json_3 = Inr [(''name'', JStr ''T3''), (''account_id'', JNull), (''regions'', JList [])]"
  by (simp add: get_dto_def json_3_def get_def Let_def)



text \<open>
  C10: \<open>get_dto\<close> does not fail on missing optional fields. Without a \<^verbatim>\<open>regions\<close>
  key, or with \<^verbatim>\<open>regions\<close> null, it succeeds and the output's \<^verbatim>\<open>regions\<close> is the
  empty list. Without a \<^verbatim>\<open>project\<close> key the output's \<^verbatim>\<open>account_id\<close> is null, and
  the projection succeeds whenever \<^verbatim>\<open>regions\<close> is absent, null or a list of
  dictionaries.
\<close>

theorem get_dto_missing_fields:
  "(map_of tj ''regions'' = None \<or> map_of tj ''regions'' = Some JNull \<longrightarrow>
      (\<exists>out. get_dto tj = Inr out \<and> map_of out ''regions'' = Some (JList [])))
   \<and> (map_of tj ''project'' = None \<longrightarrow>
        (\<forall>out. get_dto tj = Inr out \<longrightarrow> map_of out ''account_id'' = Some JNull)
        \<and> ((map_of tj ''regions'' = None \<or> map_of tj ''regions'' = Some JNull
             \<or> (\<exists>rs. map_of tj ''regions'' = Some (JList (map JObj rs))))
            \<longrightarrow> (\<exists>out. get_dto tj = Inr out \<and> map_of out ''account_id'' = Some JNull)))"
proof (intro conjI impI allI)
  assume "map_of tj ''regions'' = None \<or> map_of tj ''regions'' = Some JNull"
  then show "\<exists>out. get_dto tj = Inr out \<and> map_of out ''regions'' = Some (JList [])"
    by (simp add: get_dto_regions_absent map_of_projected)
next
  fix out assume "map_of tj ''project'' = None" and "get_dto tj = Inr out"
  then show "map_of out ''account_id'' = Some JNull"
    by (auto simp: get_dto_def Let_def get_def AList.update_conv' split: sum.splits)
next
  assume p: "map_of tj ''project'' = None"
    and "map_of tj ''regions'' = None \<or> map_of tj ''regions'' = Some JNull
             \<or> (\<exists>rs. map_of tj ''regions'' = Some (JList (map JObj rs)))"
  then consider "map_of tj ''regions'' = None \<or> map_of tj ''regions'' = Some JNull"
    | rs where "map_of tj ''regions'' = Some (JList (map JObj rs))" by blast
  then show "\<exists>out. get_dto tj = Inr out \<and> map_of out ''account_id'' = Some JNull"
  proof cases
    case 1
    with p show ?thesis by (simp add: get_dto_regions_absent map_of_projected get_def)
  next
    case 2
    with p show ?thesis by (simp add: get_dto_regions_objects map_of_projected get_def)
  qed
qed

theorem get_dto_missing_fields_witness:
  "map_of json_3 ''regions'' = None \<and> map_of json_2 ''regions'' = Some JNull
   \<and> map_of json_3 ''project'' = None
   \<and> (\<exists>out. get_dto json_3 = Inr out \<and> map_of out ''regions'' = Some (JList []))
   \<and> (\<exists>out. get_dto json_2 = Inr out \<and> map_of out ''regions'' = Some (JList []))
   \<and> (\<exists>out. get_dto json_3 = Inr out \<and> map_of out ''account_id'' = Some JNull)
   \<and> get_dto json_3 = Inr [(''name'', JStr ''T3''), (''account_id'', JNull), (''regions'', JList [])]"
proof -
  have r3: "map_of json_3 ''regions'' = None" by (simp add: json_3_def)
  have r2: "map_of json_2 ''regions'' = Some JNull" by (simp add: json_2_def)
  have p3: "map_of json_3 ''project'' = None" by (simp add: json_3_def)
  have a: "\<exists>out. get_dto json_3 = Inr out \<and> map_of out ''regions'' = Some (JList [])"
    using get_dto_missing_fields [of json_3, THEN conjunct1, THEN mp, OF disjI1, OF r3] .
  have b: "\<exists>out. get_dto json_2 = Inr out \<and> map_of out ''regions'' = Some (JList [])"
    using get_dto_missing_fields [of json_2, THEN conjunct1, THEN mp, OF disjI2, OF r2] .
  have c: "\<exists>out. get_dto json_3 = Inr out \<and> map_of out ''account_id'' = Some JNull"
    using get_dto_missing_fields [of json_3, THEN conjunct2, THEN mp, OF p3, THEN conjunct2,
            THEN mp, OF disjI1, OF r3] .
  from r3 r2 p3 a b c eval_get_dto_3 show ?thesis by (intro conjI)
qed

end
